theory Spec2Isabelle
  imports Main "HOL-Library.Char_ord" "HOL-Library.List_Lexorder" "HOL-Library.Multiset"
begin

section \<open>The promote command of jx: a shallow embedding\<close>

text \<open>
  The development follows the Go file that implements \<^verbatim>\<open>jx promote\<close>
  (package \<^verbatim>\<open>cmd\<close>: \<^verbatim>\<open>PromoteOptions\<close> and its methods). Collaborators
  whose code is not part of the sources (the Git provider, the helm client, the
  activity ledger of package \<^verbatim>\<open>kube\<close>, the clock) are modelled by the answers they
  give: every call the code makes is written to a trace of events, and the answer
  is read from an explicit input.
\<close>

subsection \<open>Errors\<close>

text \<open>
  One constructor for every \<^verbatim>\<open>fmt.Errorf\<close> of the file, carrying exactly the
  values its format string interpolates, in their order. \<open>External\<close> is an error
  handed back by a collaborator. \<open>InvalidOption\<close> is the error that
  \<^verbatim>\<open>util.InvalidOption(name, value, values)\<close> builds; the helper is outside the
  sources, and the error is taken to carry its three arguments. Times and
  durations are integers of one unit.
\<close>

type_synonym Duration = int
type_synonym Time = int

datatype error =
    External string
  | NoNamespaceForEnvironment string
  | NoEnvironments string
  | InvalidOption string string "string list"
  | NoNamespaceAssociated string
  | QueryPullRequestStatusFailed string error
  | MergeStatusFailed string string string
  | PullRequestClosed string
  | LastCommitStatusFailed string string string
  | TimedOut string Duration
  | VersionNotFound string

text \<open>The strings an error's message is built from (a duration is not a string).\<close>

fun mentions :: "error \<Rightarrow> string list" where
  "mentions (External msg) = [msg]"
| "mentions (NoNamespaceForEnvironment name) = [name]"
| "mentions (NoEnvironments team) = [team]"
| "mentions (InvalidOption name val vals) = name # val # vals"
| "mentions (NoNamespaceAssociated env) = [env]"
| "mentions (QueryPullRequestStatusFailed url err) = url # mentions err"
| "mentions (MergeStatusFailed state targetURL description) = [state, targetURL, description]"
| "mentions (PullRequestClosed url) = [url]"
| "mentions (LastCommitStatusFailed url status sha) = [url, status, sha]"
| "mentions (TimedOut url d) = [url]"
| "mentions (VersionNotFound app) = [app]"

subsection \<open>Strings and semantic versions\<close>

text \<open>
  \<^verbatim>\<open>strings.Compare\<close> of the Go library: the byte-wise lexicographic comparison,
  with result \<open>-1\<close>, \<open>0\<close> or \<open>1\<close>.
\<close>

fun strings_Compare :: "string \<Rightarrow> string \<Rightarrow> int" where
  "strings_Compare [] [] = 0"
| "strings_Compare [] (y # ys) = - 1"
| "strings_Compare (x # xs) [] = 1"
| "strings_Compare (x # xs) (y # ys) =
     (if (of_char x :: nat) < of_char y then - 1
      else if (of_char y :: nat) < of_char x then 1
      else strings_Compare xs ys)"

text \<open>
  The semantic versions of the library \<^verbatim>\<open>github.com/blang/semver\<close>, which is not
  part of the sources. \<open>findLatestVersion\<close> below takes the library's \<^verbatim>\<open>Parse\<close>,
  \<^verbatim>\<open>Compare\<close> and \<^verbatim>\<open>String\<close> as parameters. The three definitions that follow
  give them for the fragment \<^verbatim>\<open>MAJOR.MINOR.PATCH\<close> of plain numbers (no leading
  zero, each below \<open>2 ^ 64\<close>); a string with a pre-release or build suffix is
  outside the fragment and is rejected here. They are used at concrete inputs only.
\<close>

record Version =
  Major :: nat
  Minor :: nat
  Patch :: nat

definition is_digit :: "char \<Rightarrow> bool" where
  "is_digit c = (48 \<le> (of_char c :: nat) \<and> (of_char c :: nat) \<le> 57)"

definition digits_value :: "string \<Rightarrow> nat" where
  "digits_value s = foldl (\<lambda>a c. 10 * a + (of_char c - 48)) 0 s"

definition parse_number :: "string \<Rightarrow> nat option" where
  "parse_number s =
     (if s = [] \<or> \<not> list_all is_digit s then None
      else if 1 < length s \<and> hd s = CHR ''0'' then None
      else if digits_value s < 2 ^ 64 then Some (digits_value s) else None)"

fun until_dot :: "string \<Rightarrow> string \<times> string option" where
  "until_dot [] = ([], None)"
| "until_dot (c # cs) =
     (if c = CHR ''.'' then ([], Some cs)
      else (case until_dot cs of (a, r) \<Rightarrow> (c # a, r)))"

definition semver_Parse :: "string \<Rightarrow> Version option" where
  "semver_Parse s =
     (case until_dot s of
        (ma, Some r1) \<Rightarrow>
          (case until_dot r1 of
             (mi, Some pa) \<Rightarrow>
               (case (parse_number ma, parse_number mi, parse_number pa) of
                  (Some a, Some b, Some c) \<Rightarrow> Some \<lparr>Major = a, Minor = b, Patch = c\<rparr>
                | _ \<Rightarrow> None)
           | _ \<Rightarrow> None)
      | _ \<Rightarrow> None)"

definition semver_Compare :: "Version \<Rightarrow> Version \<Rightarrow> int" where
  "semver_Compare v w =
     (if Major v \<noteq> Major w then (if Major w < Major v then 1 else - 1)
      else if Minor v \<noteq> Minor w then (if Minor w < Minor v then 1 else - 1)
      else if Patch v \<noteq> Patch w then (if Patch w < Patch v then 1 else - 1)
      else 0)"

fun decimal :: "nat \<Rightarrow> string" where
  "decimal n =
     (if n < 10 then [''0123456789'' ! n]
      else decimal (n div 10) @ [''0123456789'' ! (n mod 10)])"

declare decimal.simps [simp del]

definition semver_String :: "Version \<Rightarrow> string" where
  "semver_String v = decimal (Major v) @ ''.'' @ decimal (Minor v) @ ''.'' @ decimal (Patch v)"

subsection \<open>findLatestVersion\<close>

text \<open>
  The loop over the versions the helm repository returned. \<open>maxSemVer\<close> is the Go
  pointer (\<open>None\<close> is \<^verbatim>\<open>nil\<close>), \<open>maxString\<close> starts as the empty string. The
  warning logged for a string that does not parse has no effect on the result.
\<close>

fun findLatestVersion_loop ::
  "(string \<Rightarrow> 'v option) \<Rightarrow> ('v \<Rightarrow> 'v \<Rightarrow> int) \<Rightarrow> 'v option \<Rightarrow> string \<Rightarrow> string list
    \<Rightarrow> 'v option \<times> string" where
  "findLatestVersion_loop parse cmp maxSemVer maxString [] = (maxSemVer, maxString)"
| "findLatestVersion_loop parse cmp maxSemVer maxString (version # versions) =
     (case parse version of
        None \<Rightarrow>
          findLatestVersion_loop parse cmp maxSemVer
            (if maxString = [] \<or> 0 < strings_Compare version maxString then version
             else maxString)
            versions
      | Some sv \<Rightarrow>
          findLatestVersion_loop parse cmp
            (case maxSemVer of
               None \<Rightarrow> Some sv
             | Some m \<Rightarrow> if 0 < cmp m sv then Some sv else Some m)
            maxString versions)"

text \<open>
  \<open>search\<close> is what \<^verbatim>\<open>o.Helm().SearchChartVersions(app)\<close> returned: an error or
  the list of version strings.
\<close>

definition findLatestVersion ::
  "(string \<Rightarrow> 'v option) \<Rightarrow> ('v \<Rightarrow> 'v \<Rightarrow> int) \<Rightarrow> ('v \<Rightarrow> string) \<Rightarrow> string
    \<Rightarrow> error + string list \<Rightarrow> error + string" where
  "findLatestVersion parse cmp str app search =
     (case search of
        Inl err \<Rightarrow> Inl err
      | Inr versions \<Rightarrow>
          (case findLatestVersion_loop parse cmp None [] versions of
             (Some m, maxString) \<Rightarrow> Inr (str m)
           | (None, maxString) \<Rightarrow>
               if maxString = [] then Inl (VersionNotFound app) else Inr maxString))"

subsection \<open>Data\<close>

text \<open>
  The types of the packages \<^verbatim>\<open>v1\<close> and \<^verbatim>\<open>gits\<close> are declared outside the
  sources; the records below hold the fields the code reads and writes.
  A Go pointer that may be \<^verbatim>\<open>nil\<close> is an \<open>option\<close>.
\<close>

datatype PromotionStrategyType = Manual | Automatic | OtherStrategy string

datatype EnvironmentKindType = Permanent | Preview | OtherKind string


record Environment =
  Name :: string
  Label :: string
  Namespace :: string
  PromotionStrategy :: PromotionStrategyType
  Kind :: EnvironmentKindType
  SourceURL :: string
  Order :: int

text \<open>
  \<^verbatim>\<open>gits.GitPullRequest\<close>. \<open>Closed\<close> is the answer of its method \<^verbatim>\<open>IsClosed()\<close>.
\<close>

record GitPullRequest =
  URL :: string
  Owner :: string
  Repo :: string
  LastCommitSha :: string
  Merged :: "bool option"
  MergeCommitSHA :: "string option"
  Mergeable :: "bool option"
  Closed :: bool

text \<open>
  A commit status as \<^verbatim>\<open>ListCommitStatus\<close> returns it; \<open>statusURL\<close> is its field
  \<^verbatim>\<open>URL\<close>.
\<close>

record GitRepoStatus =
  statusURL :: string
  State :: string
  TargetURL :: string
  Description :: string

text \<open>
  Modelled from the spec: the method \<^verbatim>\<open>IsFailed()\<close> of a commit status is
  declared outside the sources; the spec's failed states are \<open>failure\<close> and
  \<open>error\<close>.
\<close>

definition IsFailed :: "GitRepoStatus \<Rightarrow> bool" where
  "IsFailed status = (State status = ''error'' \<or> State status = ''failure'')"

text \<open>
  \<open>GitProvider\<close> names the provider the handle belongs to (an interface value in
  the code); the field \<^verbatim>\<open>PullRequestArguments\<close> is never read in this file.
\<close>

record ReleasePullRequestInfo =
  GitProvider :: string
  PullRequest :: "GitPullRequest option"

record ReleaseInfo =
  infoReleaseName :: string
  infoFullAppName :: string
  infoVersion :: string
  PullRequestInfo :: "ReleasePullRequestInfo option"

record PromoteOptions =
  Application :: string
  Version :: string
  ReleaseName :: string
  HelmRepositoryURL :: string
  NoMergePullRequest :: bool
  TimeoutDuration :: "Duration option"
  PullRequestPollDuration :: "Duration option"

definition optionEnvironment :: string where
  "optionEnvironment = ''env''"

definition optionTimeout :: string where
  "optionTimeout = ''timeout''"

definition optionPullRequestPollTime :: string where
  "optionPullRequestPollTime = ''pull-request-poll-time''"

definition gitStatusSuccess :: string where
  "gitStatusSuccess = ''success''"

subsection \<open>Events\<close>

text \<open>
  What the code does to the outside, in the order it does it: a log line (one
  constructor for each logging statement, with the values it prints), a call of
  the Git provider, a transition handed to the activity ledger through
  \<^verbatim>\<open>promoteKey.OnPromotePullRequest\<close> or \<^verbatim>\<open>promoteKey.OnPromoteUpdate\<close>, and the
  other calls.
\<close>

datatype logline =
    LogNoOption string
  | LogMergedWaitingForSha string
  | LogMergedAtSha string string
  | LogMergeStatusQueryFailed string string string error
  | LogNoMergeStatuses string string string
  | LogMergeStatusFailed string string string
  | LogMergeStatus string string string string
  | LogAllPassed
  | LogClosed string
  | LogLastCommitStatusQueryFailed string string error
  | LogInProgress
  | LogMergeFailed string error
  | LogRebasing

datatype gitcall =
    UpdatePullRequestStatus string
  | ListCommitStatus string string string
  | PullRequestLastCommitStatus string
  | MergePullRequest string string

datatype pullrequest_transition =
    CompletePromotionPullRequest string
  | FailedPromotionPullRequest

datatype update_transition =
    StartPromotionUpdate
  | UpdateStatuses "(string \<times> string) list"
  | CompletePromotionUpdate

datatype event =
    Log logline
  | GitCall string gitcall
  | OnPromotePullRequest pullrequest_transition
  | OnPromoteUpdate update_transition
  | CommentOnIssues string string
  | CreateEnvironmentPullRequest string string string string "ReleasePullRequestInfo option"
  | CreatePromoteKey string
  | Sleep Duration

subsection \<open>The answers of the collaborators\<close>

text \<open>
  The answers the collaborators give during one iteration of the poll loop, one
  field for each call the iteration can make. \<open>updatePullRequestStatus\<close> is the
  provider's \<^verbatim>\<open>UpdatePullRequestStatus(pr)\<close>: it rewrites the pull request it is
  given and may fail. \<open>commentOnIssues\<close> is what the method of that name returns
  (it hands back the errors of the clients it creates), \<open>completePromotionUpdate\<close>
  what the ledger returns for \<^verbatim>\<open>kube.CompletePromotionUpdate\<close>, and \<open>now\<close> the
  reading of \<^verbatim>\<open>time.Now()\<close> at the deadline check. \<open>createEnvironmentPullRequest\<close>
  is the answer of the method of that name, which lives outside the sources.
\<close>

record answers =
  updatePullRequestStatus :: "GitPullRequest \<Rightarrow> GitPullRequest \<times> error option"
  listCommitStatus :: "error + GitRepoStatus list"
  pullRequestLastCommitStatus :: "error + string"
  mergePullRequest :: "error option"
  createEnvironmentPullRequest :: "ReleasePullRequestInfo option \<times> error option"
  commentOnIssues :: "error option"
  completePromotionUpdate :: "error option"
  now :: Time

subsection \<open>PromoteViaPullRequest\<close>

text \<open>
  The method computes the branch name, the title and the message and hands them,
  with the pull request info tracked so far, to \<^verbatim>\<open>createEnvironmentPullRequest\<close>.
  It stores the info it gets back in the release info and returns the error.
  The function that edits the requirements is run by the collaborator, if at all.
\<close>

definition PromoteViaPullRequest ::
  "PromoteOptions \<Rightarrow> Environment \<Rightarrow> ReleasePullRequestInfo option
    \<Rightarrow> ReleasePullRequestInfo option \<times> error option
    \<Rightarrow> ReleasePullRequestInfo option \<times> error option \<times> event list" where
  "PromoteViaPullRequest opts env existing answer =
     (let versionName = (if Version opts = [] then ''latest'' else Version opts);
          app = Application opts;
          branchNameText = ''promote-'' @ app @ ''-'' @ versionName;
          title = app @ '' to '' @ versionName;
          message = ''Promote '' @ app @ '' to version '' @ versionName
      in (fst answer, snd answer,
          [CreateEnvironmentPullRequest (Name env) branchNameText title message existing]))"

subsection \<open>waitForGitOpsPullRequest\<close>

text \<open>
  The variables of the loop. The local \<open>pullRequestInfo\<close> and the field
  \<^verbatim>\<open>releaseInfo.PullRequestInfo\<close> point to the same object from the first
  iteration on (the rebase assigns both), so one component stands for both.
  The two Go maps are association lists; reading a missing key gives the empty
  string.
\<close>

record poll_state =
  pullRequestInfo :: "ReleasePullRequestInfo option"
  logMergeFailure :: bool
  logNoMergeCommitSha :: bool
  logHasMergeSha :: bool
  logMergeStatusError :: bool
  logNoMergeStatuses :: bool
  urlStatusMap :: "(string \<times> string) list"
  urlStatusTargetURLMap :: "(string \<times> string) list"

definition initial_state :: "ReleasePullRequestInfo option \<Rightarrow> poll_state" where
  "initial_state info =
     \<lparr>pullRequestInfo = info, logMergeFailure = False, logNoMergeCommitSha = False,
      logHasMergeSha = False, logMergeStatusError = False, logNoMergeStatuses = False,
      urlStatusMap = [], urlStatusTargetURLMap = []\<rparr>"

definition lookup :: "(string \<times> string) list \<Rightarrow> string \<Rightarrow> string" where
  "lookup m k = (case map_of m k of None \<Rightarrow> [] | Some v \<Rightarrow> v)"

fun assign :: "string \<Rightarrow> string \<Rightarrow> (string \<times> string) list \<Rightarrow> (string \<times> string) list" where
  "assign k v [] = [(k, v)]"
| "assign k v (p # ps) = (if fst p = k then (k, v) # ps else p # assign k v ps)"

text \<open>How one iteration ends: with a return, with a panic, or by going round again.\<close>

datatype step = Done "error option" | Panicked | Continue

text \<open>
  The loop over the statuses of the merge commit: a failed status ends it (and
  the poller) at once; any other status is recorded under its URL unless that
  URL already holds \<open>success\<close> or the same state.
\<close>

fun statuses_loop ::
  "(string \<times> string) list \<Rightarrow> (string \<times> string) list \<Rightarrow> GitRepoStatus list
    \<Rightarrow> GitRepoStatus option \<times> (string \<times> string) list \<times> (string \<times> string) list \<times> event list" where
  "statuses_loop m t [] = (None, m, t, [])"
| "statuses_loop m t (status # statuses) =
     (if IsFailed status
      then (Some status, m, t,
            [Log (LogMergeStatusFailed (State status) (TargetURL status) (Description status))])
      else if (lookup m (statusURL status) = [] \<or> lookup m (statusURL status) \<noteq> gitStatusSuccess)
              \<and> lookup m (statusURL status) \<noteq> State status
      then (case statuses_loop (assign (statusURL status) (State status) m)
                   (assign (statusURL status) (TargetURL status) t) statuses of
              (failed, m', t', evs) \<Rightarrow>
                (failed, m', t',
                 Log (LogMergeStatus (State status) (statusURL status) (TargetURL status)
                        (Description status)) # evs))
      else statuses_loop m t statuses)"

text \<open>
  The statuses written to the ledger: for every recorded URL in sorted order
  (\<^verbatim>\<open>util.SortedMapKeys\<close>), the target URL (or the URL itself) and the state.
\<close>

definition prStatuses :: "(string \<times> string) list \<Rightarrow> (string \<times> string) list \<Rightarrow> (string \<times> string) list" where
  "prStatuses m t =
     map (\<lambda>url. (if lookup t url = [] then url else lookup t url, lookup m url))
       (sort (remdups (map fst m)))"

text \<open>
  Lines 580 to 631: the statuses of the merge commit are not empty. The result
  is how the iteration goes on, the new loop variables and the events. The loop
  at line 618 ranges over the entries of the map: the recorded URLs, each with
  the value a read of the map gives.
\<close>

definition merged_statuses ::
  "string \<Rightarrow> Environment \<Rightarrow> poll_state \<Rightarrow> GitRepoStatus list \<Rightarrow> answers
    \<Rightarrow> step \<times> poll_state \<times> event list" where
  "merged_statuses ns env st statuses a =
     (case statuses_loop (urlStatusMap st) (urlStatusTargetURLMap st) statuses of
        (Some status, m, t, evs) \<Rightarrow>
          (Done (Some (MergeStatusFailed (State status) (TargetURL status) (Description status))),
           st\<lparr>urlStatusMap := m, urlStatusTargetURLMap := t\<rparr>, evs)
      | (None, m, t, evs) \<Rightarrow>
          (let st' = st\<lparr>urlStatusMap := m, urlStatusTargetURLMap := t\<rparr>;
               evs' = evs @ [OnPromoteUpdate (UpdateStatuses (prStatuses m t))]
           in if list_all (\<lambda>url. lookup m url = gitStatusSuccess) (map fst m)
              then (case commentOnIssues a of
                      Some err \<Rightarrow>
                        (Done (Some err), st',
                         evs' @ [Log LogAllPassed, CommentOnIssues ns (Name env)])
                    | None \<Rightarrow>
                        (Done (completePromotionUpdate a), st',
                         evs' @ [Log LogAllPassed, CommentOnIssues ns (Name env),
                                 OnPromoteUpdate CompletePromotionUpdate]))
              else (Continue, st', evs')))"

text \<open>Lines 546 to 633: the pull request is merged.\<close>

definition merged_branch ::
  "string \<Rightarrow> Environment \<Rightarrow> string \<Rightarrow> GitPullRequest \<Rightarrow> poll_state \<Rightarrow> answers
    \<Rightarrow> step \<times> poll_state \<times> event list" where
  "merged_branch ns env provider pr st a =
     (case MergeCommitSHA pr of
        None \<Rightarrow>
          (Continue, st\<lparr>logNoMergeCommitSha := True\<rparr>,
           if \<not> logNoMergeCommitSha st then [Log (LogMergedWaitingForSha (URL pr))] else [])
      | Some mergeSha \<Rightarrow>
          (let evs1 = (if \<not> logHasMergeSha st
                       then [Log (LogMergedAtSha (URL pr) mergeSha),
                             OnPromotePullRequest (CompletePromotionPullRequest mergeSha)]
                       else []);
               st1 = st\<lparr>logHasMergeSha := True\<rparr>;
               evs2 = evs1 @ [OnPromoteUpdate StartPromotionUpdate,
                              GitCall provider (ListCommitStatus (Owner pr) (Repo pr) mergeSha)]
           in case listCommitStatus a of
                Inl err \<Rightarrow>
                  (Continue, st1\<lparr>logMergeStatusError := True\<rparr>,
                   evs2 @ (if \<not> logMergeStatusError st
                           then [Log (LogMergeStatusQueryFailed (Owner pr) (Repo pr) mergeSha err)]
                           else []))
              | Inr statuses \<Rightarrow>
                  if length statuses = 0
                  then (Continue, st1\<lparr>logNoMergeStatuses := True\<rparr>,
                        evs2 @ (if \<not> logNoMergeStatuses st
                                then [Log (LogNoMergeStatuses (Owner pr) (Repo pr) mergeSha)]
                                else []))
                  else (case merged_statuses ns env st1 statuses a of
                          (s, st2, evs3) \<Rightarrow> (s, st2, evs2 @ evs3))))"

text \<open>Lines 635 to 661: the pull request is not merged.\<close>

definition mergeMessage :: string where
  "mergeMessage = ''jx promote automatically merged promotion PR''"

definition unmerged_branch ::
  "PromoteOptions \<Rightarrow> string \<Rightarrow> GitPullRequest \<Rightarrow> poll_state \<Rightarrow> answers
    \<Rightarrow> step \<times> poll_state \<times> event list" where
  "unmerged_branch opts provider pr st a =
     (if Closed pr
      then (Done (Some (PullRequestClosed (URL pr))), st, [Log (LogClosed (URL pr))])
      else (let call = GitCall provider (PullRequestLastCommitStatus (URL pr)) in
        case pullRequestLastCommitStatus a of
          Inl err \<Rightarrow>
            (Continue, st,
             [call, Log (LogLastCommitStatusQueryFailed (URL pr) (LastCommitSha pr) err)])
        | Inr status \<Rightarrow>
            if status = ''in-progress'' then (Continue, st, [call, Log LogInProgress])
            else if status = ''success''
            then (if \<not> NoMergePullRequest opts
                  then (case mergePullRequest a of
                          Some err \<Rightarrow>
                            (Continue, st\<lparr>logMergeFailure := True\<rparr>,
                             [call, GitCall provider (MergePullRequest (URL pr) mergeMessage)]
                             @ (if \<not> logMergeFailure st
                                then [Log (LogMergeFailed (URL pr) err)] else []))
                        | None \<Rightarrow>
                            (Continue, st,
                             [call, GitCall provider (MergePullRequest (URL pr) mergeMessage)]))
                  else (Continue, st, [call]))
            else if status = ''error'' \<or> status = ''failure''
            then (Done (Some (LastCommitStatusFailed (URL pr) status (LastCommitSha pr))),
                  st, [call])
            else (Continue, st, [call])))"

text \<open>
  Lines 663 to 673: the rebase when the pull request is not mergeable (the error
  of \<open>PromoteViaPullRequest\<close> is assigned and never read), the deadline check
  and the sleep. \<open>pr\<close> is still the pull request of the start of the iteration.
\<close>

definition rebase_and_deadline ::
  "PromoteOptions \<Rightarrow> Environment \<Rightarrow> Time \<Rightarrow> Duration \<Rightarrow> GitPullRequest \<Rightarrow> poll_state
    \<Rightarrow> answers \<Rightarrow> step \<times> poll_state \<times> event list" where
  "rebase_and_deadline opts env end duration pr st a =
     (case (if Mergeable pr = Some False
            then (case PromoteViaPullRequest opts env (pullRequestInfo st)
                         (createEnvironmentPullRequest a) of
                    (info, err, evs) \<Rightarrow> (st\<lparr>pullRequestInfo := info\<rparr>, Log LogRebasing # evs))
            else (st, [])) of
        (st1, evs1) \<Rightarrow>
          if end < now a then (Done (Some (TimedOut (URL pr) duration)), st1, evs1)
          else (case PullRequestPollDuration opts of
                  None \<Rightarrow> (Panicked, st1, evs1)
                | Some d \<Rightarrow> (Continue, st1, evs1 @ [Sleep d])))"

text \<open>The two arms of the \<^verbatim>\<open>if\<close> at line 545.\<close>

definition branch ::
  "PromoteOptions \<Rightarrow> string \<Rightarrow> Environment \<Rightarrow> string \<Rightarrow> GitPullRequest \<Rightarrow> poll_state
    \<Rightarrow> answers \<Rightarrow> step \<times> poll_state \<times> event list" where
  "branch opts ns env provider pr st a =
     (if Merged pr = Some True then merged_branch ns env provider pr st a
      else unmerged_branch opts provider pr st a)"

text \<open>
  One iteration of the loop (lines 538 to 673). A \<^verbatim>\<open>nil\<close> info is dereferenced
  at line 538; a \<^verbatim>\<open>nil\<close> pull request is handed to the provider and dereferenced
  by the statement that follows, whatever the provider answers: both are a
  panic here. Of the provider's methods only \<^verbatim>\<open>UpdatePullRequestStatus\<close> rewrites
  the pull request; the event of that call carries the URL the pull request
  had when the call was made.
\<close>

definition iteration ::
  "PromoteOptions \<Rightarrow> string \<Rightarrow> Environment \<Rightarrow> Time \<Rightarrow> Duration \<Rightarrow> poll_state \<Rightarrow> answers
    \<Rightarrow> step \<times> poll_state \<times> event list" where
  "iteration opts ns env end duration st a =
     (case pullRequestInfo st of
        None \<Rightarrow> (Panicked, st, [])
      | Some info \<Rightarrow>
          (case PullRequest info of
             None \<Rightarrow> (Panicked, st, [])
           | Some pr0 \<Rightarrow>
               (let provider = GitProvider info;
                    call = GitCall provider (UpdatePullRequestStatus (URL pr0));
                    pr = fst (updatePullRequestStatus a pr0);
                    st0 = st\<lparr>pullRequestInfo := Some (info\<lparr>PullRequest := Some pr\<rparr>)\<rparr>
                in case snd (updatePullRequestStatus a pr0) of
                     Some err \<Rightarrow>
                       (Done (Some (QueryPullRequestStatusFailed (URL pr) err)), st0, [call])
                   | None \<Rightarrow>
                       (case branch opts ns env provider pr st0 a of
                          (Continue, st1, evs) \<Rightarrow>
                            (case rebase_and_deadline opts env end duration pr st1 a of
                               (s, st2, evs') \<Rightarrow> (s, st2, call # evs @ evs'))
                        | (s, st1, evs) \<Rightarrow> (s, st1, call # evs)))))"

text \<open>
  The loop. It runs as long as the collaborators keep answering: the list holds
  their answers, iteration by iteration, and \<open>Polling\<close> says that the loop has
  used them all and is still going round.
\<close>

datatype outcome = Returned "error option" | Panic | Polling

fun poll ::
  "PromoteOptions \<Rightarrow> string \<Rightarrow> Environment \<Rightarrow> Time \<Rightarrow> Duration \<Rightarrow> poll_state
    \<Rightarrow> answers list \<Rightarrow> outcome \<times> poll_state \<times> event list" where
  "poll opts ns env end duration st [] = (Polling, st, [])"
| "poll opts ns env end duration st (a # as) =
     (case iteration opts ns env end duration st a of
        (Continue, st', evs) \<Rightarrow>
          (case poll opts ns env end duration st' as of
             (r, st'', evs') \<Rightarrow> (r, st'', evs @ evs'))
      | (Done r, st', evs) \<Rightarrow> (Returned r, st', evs)
      | (Panicked, st', evs) \<Rightarrow> (Panic, st', evs))"

definition waitForGitOpsPullRequest ::
  "PromoteOptions \<Rightarrow> string \<Rightarrow> Environment \<Rightarrow> ReleaseInfo \<Rightarrow> Time \<Rightarrow> Duration
    \<Rightarrow> answers list \<Rightarrow> outcome \<times> poll_state \<times> event list" where
  "waitForGitOpsPullRequest opts ns env releaseInfo end duration script =
     (if PullRequestInfo releaseInfo \<noteq> None
      then poll opts ns env end duration (initial_state (PullRequestInfo releaseInfo)) script
      else (Returned None, initial_state (PullRequestInfo releaseInfo), []))"

subsection \<open>WaitForPromotion\<close>

text \<open>
  \<open>now0\<close> is the reading of \<^verbatim>\<open>time.Now()\<close> at line 510. The release info is a
  pointer; \<open>Promote\<close> hands back \<^verbatim>\<open>nil\<close> when no application name is known.
  \<open>createPromoteKey\<close> and the ledger are collaborators: the calls are events.
\<close>

definition WaitForPromotion ::
  "PromoteOptions \<Rightarrow> string \<Rightarrow> Environment \<Rightarrow> ReleaseInfo option \<Rightarrow> Time \<Rightarrow> answers list
    \<Rightarrow> outcome \<times> event list" where
  "WaitForPromotion opts ns env releaseInfo now0 script =
     (case TimeoutDuration opts of
        None \<Rightarrow> (Returned None, [Log (LogNoOption optionTimeout)])
      | Some duration \<Rightarrow>
          (case PullRequestPollDuration opts of
             None \<Rightarrow> (Returned None, [Log (LogNoOption optionPullRequestPollTime)])
           | Some d \<Rightarrow>
               (let end = now0 + duration in
                case releaseInfo of
                  None \<Rightarrow> (Panic, [])
                | Some info \<Rightarrow>
                    if PullRequestInfo info \<noteq> None
                    then (case waitForGitOpsPullRequest opts ns env info end duration script of
                            (Returned (Some err), st, evs) \<Rightarrow>
                              (Returned (Some err),
                               CreatePromoteKey (Name env) # evs
                               @ [OnPromotePullRequest FailedPromotionPullRequest])
                          | (r, st, evs) \<Rightarrow> (r, CreatePromoteKey (Name env) # evs))
                    else (Returned None, []))))"

subsection \<open>GetTargetNamespace and PromoteAllAutomatic\<close>

text \<open>
  The answers of the cluster: the clients, the team namespace, and the
  environments, as \<^verbatim>\<open>kube.GetEnvironments\<close> returns them (the environments by
  name and the list of their names) and as the list call returns them.
\<close>

record cluster =
  kubeClient :: "error + string"
  getDevNamespace :: "error + string"
  jxClient :: "error option"
  getEnvironments :: "error + (string \<rightharpoonup> Environment) \<times> string list"
  listEnvironments :: "error + Environment list"
  ensureNamespaceCreated :: "string \<Rightarrow> error option"

definition GetTargetNamespace ::
  "cluster \<Rightarrow> string \<Rightarrow> string \<Rightarrow> error + string \<times> Environment option" where
  "GetTargetNamespace c ns env =
     (case kubeClient c of
        Inl err \<Rightarrow> Inl err
      | Inr currentNs \<Rightarrow>
          (case getDevNamespace c of
             Inl err \<Rightarrow> Inl err
           | Inr team \<Rightarrow>
               (case jxClient c of
                  Some err \<Rightarrow> Inl err
                | None \<Rightarrow>
                    (case getEnvironments c of
                       Inl err \<Rightarrow> Inl err
                     | Inr (m, envNames) \<Rightarrow>
                         if length envNames = 0 then Inl (NoEnvironments team)
                         else (case (if env \<noteq> []
                                     then (case m env of
                                             None \<Rightarrow> Inl (InvalidOption optionEnvironment env envNames)
                                           | Some envResource \<Rightarrow>
                                               if Namespace envResource = []
                                               then Inl (NoNamespaceAssociated env)
                                               else Inr (Namespace envResource, Some envResource))
                                     else if ns \<noteq> [] then Inr (ns, None)
                                     else Inr (currentNs, None)) of
                                 Inl err \<Rightarrow> Inl err
                               | Inr (targetNS, envResource) \<Rightarrow>
                                   (case ensureNamespaceCreated c targetNS of
                                      Some err \<Rightarrow> Inl err
                                    | None \<Rightarrow> Inr (targetNS, envResource)))))))"


text \<open>
  \<open>Promote\<close> (lines 295 to 397). Without an application name it returns \<^verbatim>\<open>nil\<close>
  and no error (lines 297 to 300). Otherwise it builds the release info at line
  317, and every return after that hands back this pointer together with the
  error of the path taken (the field \<^verbatim>\<open>PullRequestInfo\<close> is filled in by
  \<open>PromoteViaPullRequest\<close> on the pull request path). The helm client, the
  confirmation prompt and the ledger decide which; the release info as it
  stands at the return and the error are the input \<open>built\<close>. The method also
  stores the release name in the options (line 315), which no function of this
  theory reads.
\<close>

definition Promote ::
  "PromoteOptions \<Rightarrow> string \<Rightarrow> Environment \<Rightarrow> bool \<Rightarrow> ReleaseInfo \<times> error option
    \<Rightarrow> ReleaseInfo option \<times> error option" where
  "Promote opts targetNS env warnIfAuto built =
     (if Application opts = [] then (None, None) else (Some (fst built), snd built))"



subsection \<open>One environment of the sweep\<close>



subsection \<open>Counting ledger completions\<close>

text \<open>
  How often a trace hands \<^verbatim>\<open>kube.CompletePromotionPullRequest\<close> (inside the
  closure \<open>mergedPR\<close>) and \<^verbatim>\<open>kube.CompletePromotionUpdate\<close> to the ledger.
\<close>

fun is_pullrequest_completion :: "event \<Rightarrow> bool" where
  "is_pullrequest_completion (OnPromotePullRequest (CompletePromotionPullRequest sha)) = True"
| "is_pullrequest_completion ev = False"

definition pullrequest_completions :: "event list \<Rightarrow> nat" where
  "pullrequest_completions evs = length (filter is_pullrequest_completion evs)"

definition update_completions :: "event list \<Rightarrow> nat" where
  "update_completions evs = count_list evs (OnPromoteUpdate CompletePromotionUpdate)"

subsection \<open>Example inputs\<close>

text \<open>Concrete values at which the theorems below are instantiated.\<close>

definition example_pr :: GitPullRequest where
  "example_pr =
     \<lparr>URL = ''https://git.example/org/env-staging/pull/7'', Owner = ''org'',
      Repo = ''env-staging'', LastCommitSha = ''c0ffee'', Merged = None,
      MergeCommitSHA = None, Mergeable = None, Closed = False\<rparr>"

definition example_info :: ReleasePullRequestInfo where
  "example_info = \<lparr>GitProvider = ''github'', PullRequest = Some example_pr\<rparr>"

definition example_release :: ReleaseInfo where
  "example_release =
     \<lparr>infoReleaseName = ''staging-myapp'', infoFullAppName = ''releases/myapp'',
      infoVersion = ''1.2.3'', PullRequestInfo = Some example_info\<rparr>"

definition example_opts :: PromoteOptions where
  "example_opts =
     \<lparr>Application = ''myapp'', Version = ''1.2.3'', ReleaseName = ''staging-myapp'',
      HelmRepositoryURL = ''http://charts.example'', NoMergePullRequest = False,
      TimeoutDuration = Some 3600, PullRequestPollDuration = Some 20\<rparr>"

definition example_env :: Environment where
  "example_env =
     \<lparr>Name = ''staging'', Label = ''Staging'', Namespace = ''jx-staging'',
      PromotionStrategy = Automatic, Kind = Permanent,
      SourceURL = ''https://git.example/org/env-staging'', Order = 100\<rparr>"

text \<open>
  An iteration in which the refresh changes nothing, the last commit is still
  being built and the clock reads \<open>0\<close>.
\<close>

definition quiet :: answers where
  "quiet =
     \<lparr>updatePullRequestStatus = (\<lambda>pr. (pr, None)), listCommitStatus = Inr [],
      pullRequestLastCommitStatus = Inr ''in-progress'', mergePullRequest = None,
      createEnvironmentPullRequest = (None, None), commentOnIssues = None,
      completePromotionUpdate = None, now = 0\<rparr>"

text \<open>The refresh fails.\<close>

definition failing_refresh :: answers where
  "failing_refresh = quiet\<lparr>updatePullRequestStatus := (\<lambda>pr. (pr, Some (External ''503'')))\<rparr>"

text \<open>Two hours on the clock; and the same with the pull request found closed.\<close>

definition late :: answers where
  "late = quiet\<lparr>now := 7200\<rparr>"

definition closed_late :: answers where
  "closed_late = quiet\<lparr>updatePullRequestStatus := (\<lambda>pr. (pr\<lparr>Closed := True\<rparr>, None)), now := 7200\<rparr>"

text \<open>The pull request is found merged at a commit that has the given statuses.\<close>

definition merged_with :: "GitRepoStatus list \<Rightarrow> answers" where
  "merged_with statuses =
     quiet\<lparr>updatePullRequestStatus :=
             (\<lambda>pr. (pr\<lparr>Merged := Some True, MergeCommitSHA := Some ''abc123''\<rparr>, None)),
           listCommitStatus := Inr statuses\<rparr>"

text \<open>
  The pull request is found in conflict, closed or open, and the rebase hands
  back the given info.
\<close>

definition closed_in_conflict :: answers where
  "closed_in_conflict =
     quiet\<lparr>updatePullRequestStatus :=
             (\<lambda>pr. (pr\<lparr>Closed := True, Mergeable := Some False\<rparr>, None))\<rparr>"

definition in_conflict :: "ReleasePullRequestInfo option \<times> error option \<Rightarrow> answers" where
  "in_conflict rebased =
     quiet\<lparr>updatePullRequestStatus := (\<lambda>pr. (pr\<lparr>Mergeable := Some False\<rparr>, None)),
           createEnvironmentPullRequest := rebased\<rparr>"

definition merged_in_conflict ::
  "GitRepoStatus list \<Rightarrow> ReleasePullRequestInfo option \<times> error option \<Rightarrow> answers" where
  "merged_in_conflict statuses rebased =
     quiet\<lparr>updatePullRequestStatus :=
             (\<lambda>pr. (pr\<lparr>Merged := Some True, MergeCommitSHA := Some ''abc123'',
                        Mergeable := Some False\<rparr>, None)),
           listCommitStatus := Inr statuses,
           createEnvironmentPullRequest := rebased\<rparr>"

definition rebased_info :: ReleasePullRequestInfo where
  "rebased_info =
     \<lparr>GitProvider = ''github'',
      PullRequest = Some (example_pr\<lparr>URL := ''https://git.example/org/env-staging/pull/8''\<rparr>)\<rparr>"

definition example_status :: "string \<Rightarrow> string \<Rightarrow> GitRepoStatus" where
  "example_status url state =
     \<lparr>statusURL = url, State = state, TargetURL = ''http://ci.example/build/1'',
      Description = ''build''\<rparr>"



text \<open>
  A team with three environments; promotions that upgrade the release directly,
  or open a pull request that is then found closed.
\<close>

definition example_production :: Environment where
  "example_production =
     \<lparr>Name = ''production'', Label = ''Production'', Namespace = ''jx-production'',
      PromotionStrategy = Automatic, Kind = Permanent,
      SourceURL = ''https://git.example/org/env-production'', Order = 200\<rparr>"

definition example_preview :: Environment where
  "example_preview =
     \<lparr>Name = ''pr-12'', Label = ''Preview'', Namespace = ''jx-pr-12'',
      PromotionStrategy = Automatic, Kind = Preview, SourceURL = [], Order = 150\<rparr>"

definition example_cluster :: cluster where
  "example_cluster =
     \<lparr>kubeClient = Inr ''jx'', getDevNamespace = Inr ''jx'', jxClient = None,
      getEnvironments =
        Inr ([''staging'' \<mapsto> example_env, ''production'' \<mapsto> example_production],
             [''staging'', ''production'']),
      listEnvironments = Inr [example_production, example_preview, example_env],
      ensureNamespaceCreated = (\<lambda>ns. None)\<rparr>"





section \<open>Properties\<close>

subsection \<open>Version selection\<close>

lemma strings_Compare_pos: "0 < strings_Compare a b \<longleftrightarrow> b < a"
  by (induction a b rule: strings_Compare.induct) (auto simp: less_char_def)

lemma strings_Compare_le: "strings_Compare a b \<le> 0 \<longleftrightarrow> a \<le> b"
  using strings_Compare_pos [of a b] by auto

lemmas semver_defs =
  semver_Parse_def parse_number_def is_digit_def digits_value_def semver_Compare_def
  semver_String_def decimal.simps

lemma findLatestVersion_loop_unparsable:
  "\<forall>v\<in>set versions. parse v = None \<Longrightarrow>
   findLatestVersion_loop parse cmp m s versions = (m, fold max versions s)"
  by (induction versions arbitrary: s) (auto simp: strings_Compare_pos max_def not_less)

lemma fold_max_Nil_eq:
  "fold max (versions :: string list) [] = Max (set ([] # versions))"
  by (simp only: Max.set_eq_fold)

text \<open>
  C1 (code defect). The claim: for the versions \<open>1.0.0\<close>, \<open>1.2.0\<close>, \<open>0.9.5\<close> the
  function returns \<open>1.2.0\<close>, the greatest. The code replaces the running value
  when it compares greater than the candidate, so it ends with the least: at
  this input it returns \<open>0.9.5\<close>.
\<close>

theorem findLatestVersion_returns_least_of_example:
  "findLatestVersion semver_Parse semver_Compare semver_String ''myapp''
     (Inr [''1.0.0'', ''1.2.0'', ''0.9.5'']) = Inr ''0.9.5''"
  by (simp add: findLatestVersion_def semver_defs)

text \<open>
  C9, the claim as stated fails: the repository returns one version, the empty
  string, which does not parse; the greatest raw string is that string, but the
  function fails with the not-found error, since the empty \<open>maxString\<close> also
  stands for "nothing seen".
\<close>

theorem findLatestVersion_empty_string_counterexample:
  "semver_Parse [] = None \<and>
   findLatestVersion semver_Parse semver_Compare semver_String ''myapp'' (Inr [[]])
     = Inl (VersionNotFound ''myapp'')"
  by (simp add: findLatestVersion_def semver_defs)

text \<open>
  C9 (amended). When no returned string parses as a semantic version: if every
  returned string is empty (in particular when none is returned) the function
  fails with the not-found error; otherwise it returns a returned string that
  no returned string exceeds in \<open>strings_Compare\<close>, the lexicographically greatest.
\<close>

theorem findLatestVersion_unparsable:
  assumes "\<forall>v\<in>set versions. parse v = None"
  shows "if \<forall>v\<in>set versions. v = []
         then findLatestVersion parse cmp str app (Inr versions) = Inl (VersionNotFound app)
         else \<exists>m. findLatestVersion parse cmp str app (Inr versions) = Inr m \<and>
                  m \<in> set versions \<and> (\<forall>v\<in>set versions. strings_Compare v m \<le> 0)"
proof -
  let ?M = "Max (set ([] # versions))"
  have res: "findLatestVersion parse cmp str app (Inr versions) =
      (if ?M = [] then Inl (VersionNotFound app) else Inr ?M)"
    by (simp only: findLatestVersion_def findLatestVersion_loop_unparsable [OF assms]
        fold_max_Nil_eq sum.case prod.case option.case)
  have fin: "finite (set ([] # versions))" and ne: "set ([] # versions) \<noteq> {}"
    by simp_all
  have mem: "?M \<in> set ([] # versions)"
    using Max_in [OF fin ne] .
  have ub: "v \<le> ?M" if "v \<in> set versions" for v
    using Max_ge [OF fin, of v] that by simp
  show ?thesis
  proof (cases "\<forall>v\<in>set versions. v = []")
    case True
    with mem have "?M = []" by auto
    with res True show ?thesis by simp
  next
    case False
    then obtain w where w: "w \<in> set versions" "w \<noteq> []" by blast
    from ub [OF w(1)] w(2) have "?M \<noteq> []" by auto
    moreover from this mem have "?M \<in> set versions" by simp
    ultimately show ?thesis
      using res False ub by (auto simp: strings_Compare_le)
  qed
qed

theorem findLatestVersion_unparsable_witness:
  "findLatestVersion semver_Parse semver_Compare semver_String ''myapp''
     (Inr [''not-a-version'', ''also-bad'']) = Inr ''not-a-version'' \<and>
   findLatestVersion semver_Parse semver_Compare semver_String ''myapp'' (Inr [])
     = Inl (VersionNotFound ''myapp'')"
proof -
  have h: "\<forall>v\<in>set [''not-a-version'', ''also-bad'']. semver_Parse v = None"
    by (simp add: semver_defs)
  have e: "\<forall>v\<in>set ([] :: string list). semver_Parse v = None"
    by simp
  from findLatestVersion_unparsable [OF h, of semver_Compare semver_String "''myapp''"]
  obtain m where m: "findLatestVersion semver_Parse semver_Compare semver_String ''myapp''
       (Inr [''not-a-version'', ''also-bad'']) = Inr m"
    and ge: "strings_Compare ''not-a-version'' m \<le> 0"
    and mem: "m \<in> set [''not-a-version'', ''also-bad'']"
    by auto
  from mem ge have "m = ''not-a-version''" by auto
  with m findLatestVersion_unparsable [OF e, of semver_Compare semver_String "''myapp''"]
  show ?thesis by simp
qed

subsection \<open>The poller\<close>

lemmas example_defs =
  example_pr_def example_info_def example_release_def example_opts_def example_env_def
  quiet_def example_status_def failing_refresh_def late_def closed_late_def merged_with_def
  closed_in_conflict_def in_conflict_def merged_in_conflict_def rebased_info_def

lemmas poll_defs =
  iteration_def branch_def merged_branch_def unmerged_branch_def rebase_and_deadline_def
  merged_statuses_def PromoteViaPullRequest_def waitForGitOpsPullRequest_def
  WaitForPromotion_def initial_state_def Let_def

text \<open>
  C10. Whenever the timeout duration or the poll duration is absent, or the
  release info carries no pull request info, \<open>WaitForPromotion\<close> returns \<^verbatim>\<open>nil\<close>
  and does nothing but, in the first two cases, log that the option is missing:
  no call of the provider, no sleep, no ledger transition.
\<close>

theorem WaitForPromotion_nothing_to_wait_for:
  assumes "TimeoutDuration opts = None \<or> PullRequestPollDuration opts = None \<or>
           PullRequestInfo releaseInfo = None"
  shows "fst (WaitForPromotion opts ns env (Some releaseInfo) now0 script) = Returned None \<and>
         set (snd (WaitForPromotion opts ns env (Some releaseInfo) now0 script))
           \<subseteq> {Log (LogNoOption optionTimeout), Log (LogNoOption optionPullRequestPollTime)}"
  using assms by (auto simp: WaitForPromotion_def split: option.splits)

theorem WaitForPromotion_nothing_to_wait_for_witness:
  "fst (WaitForPromotion (example_opts\<lparr>TimeoutDuration := None\<rparr>) ''jx-staging'' example_env
     (Some example_release) 0 [quiet]) = Returned None \<and>
   fst (WaitForPromotion example_opts ''jx-staging'' example_env
     (Some (example_release\<lparr>PullRequestInfo := None\<rparr>)) 0 [quiet]) = Returned None"
proof -
  have a: "TimeoutDuration (example_opts\<lparr>TimeoutDuration := None\<rparr>) = None \<or>
      PullRequestPollDuration (example_opts\<lparr>TimeoutDuration := None\<rparr>) = None \<or>
      PullRequestInfo example_release = None"
    by simp
  have b: "TimeoutDuration example_opts = None \<or> PullRequestPollDuration example_opts = None \<or>
      PullRequestInfo (example_release\<lparr>PullRequestInfo := None\<rparr>) = None"
    by simp
  from WaitForPromotion_nothing_to_wait_for [OF a, of "''jx-staging''" example_env 0 "[quiet]"]
       WaitForPromotion_nothing_to_wait_for [OF b, of "''jx-staging''" example_env 0 "[quiet]"]
  show ?thesis
    by blast
qed

subsection \<open>The loop, one iteration after the other\<close>

lemma poll_append:
  "poll opts ns env e d st pre = (Polling, st1, tr1) \<Longrightarrow>
   poll opts ns env e d st (pre @ xs) =
     (case poll opts ns env e d st1 xs of (r, st2, tr2) \<Rightarrow> (r, st2, tr1 @ tr2))"
proof (induction pre arbitrary: st tr1)
  case Nil
  then show ?case by (simp split: prod.splits)
next
  case (Cons a pre)
  then show ?case
    by (auto split: prod.splits step.splits)
qed

lemma waitForGitOpsPullRequest_Polling:
  assumes "waitForGitOpsPullRequest opts ns env releaseInfo e d pre = (Polling, st, tr)"
  shows "PullRequestInfo releaseInfo \<noteq> None"
    and "poll opts ns env e d (initial_state (PullRequestInfo releaseInfo)) pre = (Polling, st, tr)"
  using assms by (auto simp: waitForGitOpsPullRequest_def split: if_splits)

lemma waitForGitOpsPullRequest_append:
  assumes "waitForGitOpsPullRequest opts ns env releaseInfo e d pre = (Polling, st, tr)"
  shows "waitForGitOpsPullRequest opts ns env releaseInfo e d (pre @ xs) =
     (case poll opts ns env e d st xs of (r, st2, tr2) \<Rightarrow> (r, st2, tr @ tr2))"
  using waitForGitOpsPullRequest_Polling [OF assms]
  by (simp add: waitForGitOpsPullRequest_def poll_append)

lemma iteration_refreshed:
  assumes "pullRequestInfo st = Some info" and "PullRequest info = Some pr0"
      and "updatePullRequestStatus a pr0 = (pr, None)"
  shows "iteration opts ns env e d st a =
     (let st0 = st\<lparr>pullRequestInfo := Some (info\<lparr>PullRequest := Some pr\<rparr>)\<rparr>;
          b = branch opts ns env (GitProvider info) pr st0 a;
          r = rebase_and_deadline opts env e d pr (fst (snd b)) a;
          call = GitCall (GitProvider info) (UpdatePullRequestStatus (URL pr0))
      in if fst b = Continue
         then (fst r, fst (snd r), call # snd (snd b) @ snd (snd r))
         else (fst b, fst (snd b), call # snd (snd b)))"
proof -
  let ?st0 = "st\<lparr>pullRequestInfo := Some (info\<lparr>PullRequest := Some pr\<rparr>)\<rparr>"
  obtain s st1 evs where b: "branch opts ns env (GitProvider info) pr ?st0 a = (s, st1, evs)"
    by (cases "branch opts ns env (GitProvider info) pr ?st0 a") auto
  show ?thesis
    using assms
    by (cases s) (simp_all add: iteration_def Let_def b case_prod_beta)
qed



lemma unmerged_branch_events:
  "set (snd (snd (unmerged_branch opts provider pr st a))) \<subseteq>
     range Log \<union> {GitCall provider (PullRequestLastCommitStatus (URL pr)),
                   GitCall provider (MergePullRequest (URL pr) mergeMessage)}"
  by (auto simp add: unmerged_branch_def Let_def split: sum.split option.split)

lemma unmerged_branch_Continue:
  assumes "\<not> Closed pr" "pullRequestLastCommitStatus a \<noteq> Inr ''error''"
    "pullRequestLastCommitStatus a \<noteq> Inr ''failure''"
  shows "fst (unmerged_branch opts provider pr st a) = Continue"
  using assms by (simp add: unmerged_branch_def Let_def split: sum.split option.split)

lemma rebase_and_deadline_timeout:
  assumes "e < now a"
  shows "fst (rebase_and_deadline opts env e d pr st a) = Done (Some (TimedOut (URL pr) d))"
  using assms by (simp add: rebase_and_deadline_def case_prod_beta)

lemma rebase_and_deadline_events:
  "set (snd (snd (rebase_and_deadline opts env e d pr st a))) \<subseteq>
     {Log LogRebasing} \<union> range Sleep \<union>
     {CreateEnvironmentPullRequest n b t m i | n b t m i. True}"
  by (simp add: rebase_and_deadline_def PromoteViaPullRequest_def Let_def case_prod_beta
      split: option.split)

subsection \<open>Completions are counted along the loop\<close>

lemma pullrequest_completions_append [simp]:
  "pullrequest_completions (xs @ ys) = pullrequest_completions xs + pullrequest_completions ys"
  by (simp add: pullrequest_completions_def)

lemma update_completions_append [simp]:
  "update_completions (xs @ ys) = update_completions xs + update_completions ys"
  by (induction xs) (simp_all add: update_completions_def)

lemma pullrequest_completions_Cons [simp]:
  "pullrequest_completions (x # xs) =
     (if is_pullrequest_completion x then 1 else 0) + pullrequest_completions xs"
  by (simp add: pullrequest_completions_def)

lemma pullrequest_completions_Nil [simp]: "pullrequest_completions [] = 0"
  by (simp add: pullrequest_completions_def)

lemma update_completions_Cons [simp]:
  "update_completions (x # xs) =
     (if x = OnPromoteUpdate CompletePromotionUpdate then 1 else 0) + update_completions xs"
  by (simp add: update_completions_def)

lemma update_completions_Nil [simp]: "update_completions [] = 0"
  by (simp add: update_completions_def)










subsection \<open>A failed refresh\<close>

text \<open>
  C2, the claim as stated fails: the first refresh fails, the second would
  succeed. The poller returns the error after the first call; there is no
  second iteration.
\<close>

theorem refresh_failure_counterexample:
  "waitForGitOpsPullRequest example_opts ''jx-staging'' example_env example_release 3600 3600
     [failing_refresh, quiet] =
   (Returned (Some (QueryPullRequestStatusFailed (URL example_pr) (External ''503''))),
    initial_state (Some example_info),
    [GitCall ''github'' (UpdatePullRequestStatus (URL example_pr))])"
  by (simp add: poll_defs example_defs)

text \<open>
  C2 (amended). In every iteration of the poll loop, if the call that refreshes
  the pull request fails, the poller returns at once an error that carries the
  URL of the pull request and the provider's error. Nothing else is done in
  that iteration, and whatever the collaborators would answer later plays no
  part: the refresh is not retried.
\<close>

theorem refresh_failure_is_returned:
  assumes "waitForGitOpsPullRequest opts ns env releaseInfo end duration pre = (Polling, st, tr)"
      and "pullRequestInfo st = Some info" and "PullRequest info = Some pr"
      and "updatePullRequestStatus a pr = (pr', Some err)"
  shows "waitForGitOpsPullRequest opts ns env releaseInfo end duration (pre @ a # rest) =
           (Returned (Some (QueryPullRequestStatusFailed (URL pr') err)),
            st\<lparr>pullRequestInfo := Some (info\<lparr>PullRequest := Some pr'\<rparr>)\<rparr>,
            tr @ [GitCall (GitProvider info) (UpdatePullRequestStatus (URL pr))])"
  using assms(2-)
  by (simp add: waitForGitOpsPullRequest_append [OF assms(1)] iteration_def)

lemma example_one_quiet_iteration:
  "waitForGitOpsPullRequest example_opts ''jx-staging'' example_env example_release e 3600 [quiet]
     = (if e < 0 then Returned (Some (TimedOut (URL example_pr) 3600)) else Polling,
        initial_state (Some example_info),
        [GitCall ''github'' (UpdatePullRequestStatus (URL example_pr)),
         GitCall ''github'' (PullRequestLastCommitStatus (URL example_pr)),
         Log LogInProgress] @ (if e < 0 then [] else [Sleep 20]))"
  by (simp add: poll_defs example_defs)

lemma example_tracked:
  "pullRequestInfo (initial_state (Some example_info)) = Some example_info"
  "PullRequest example_info = Some example_pr"
  by (simp_all add: initial_state_def example_info_def)

theorem refresh_failure_is_returned_witness:
  "fst (waitForGitOpsPullRequest example_opts ''jx-staging'' example_env example_release 3600 3600
     ([quiet] @ failing_refresh # [quiet])) =
   Returned (Some (QueryPullRequestStatusFailed (URL example_pr) (External ''503'')))"
proof -
  have p: "waitForGitOpsPullRequest example_opts ''jx-staging'' example_env example_release
      3600 3600 [quiet] =
      (Polling, initial_state (Some example_info),
       [GitCall ''github'' (UpdatePullRequestStatus (URL example_pr)),
        GitCall ''github'' (PullRequestLastCommitStatus (URL example_pr)),
        Log LogInProgress, Sleep 20])"
    by (simp add: example_one_quiet_iteration)
  have u: "updatePullRequestStatus failing_refresh example_pr = (example_pr, Some (External ''503''))"
    by (simp add: failing_refresh_def quiet_def)
  from refresh_failure_is_returned [OF p example_tracked u, of "[quiet]"]
  show ?thesis by simp
qed

subsection \<open>The deadline\<close>

text \<open>
  C7, the claim as stated fails: the timeout is one hour, the clock reads two
  hours at the first deadline check, the pull request is not merged, but it is
  closed. The poller returns the error for a closed pull request, not a timeout.
\<close>

theorem deadline_counterexample:
  "TimeoutDuration example_opts = Some 3600 \<and> 0 + 3600 < now closed_late \<and>
   WaitForPromotion example_opts ''jx-staging'' example_env (Some example_release) 0 [closed_late]
     = (Returned (Some (PullRequestClosed (URL example_pr))),
        [CreatePromoteKey ''staging'',
         GitCall ''github'' (UpdatePullRequestStatus (URL example_pr)),
         Log (LogClosed (URL example_pr)),
         OnPromotePullRequest FailedPromotionPullRequest])"
  by (simp add: poll_defs example_defs)

text \<open>
  C7 (amended). \<open>WaitForPromotion\<close> computes the deadline once, as the clock at
  entry plus the configured timeout, and every iteration is run against it.
  The deadline is checked at the end of an iteration: when the clock is past it
  there, and that iteration has not already ended the poll (the refresh worked,
  the unmerged pull request is not closed, its last commit status is neither
  \<open>error\<close> nor \<open>failure\<close>), the poller returns a timeout error with the URL of the
  pull request of that iteration and the configured duration. The answers for
  later iterations play no part; the only thing done afterwards is to mark the
  pull request step failed. The iteration never lists commit statuses.
\<close>

theorem deadline_check_times_out:
  assumes "TimeoutDuration opts = Some duration" and "PullRequestPollDuration opts = Some d"
      and "waitForGitOpsPullRequest opts ns env releaseInfo (now0 + duration) duration pre
             = (Polling, st, tr)"
      and "pullRequestInfo st = Some info" and "PullRequest info = Some pr0"
      and "updatePullRequestStatus a pr0 = (pr, None)"
      and "Merged pr \<noteq> Some True" and "\<not> Closed pr"
      and "pullRequestLastCommitStatus a \<noteq> Inr ''error''"
      and "pullRequestLastCommitStatus a \<noteq> Inr ''failure''"
      and "now0 + duration < now a"
  shows "WaitForPromotion opts ns env (Some releaseInfo) now0 (pre @ a # rest) =
           (Returned (Some (TimedOut (URL pr) duration)),
            CreatePromoteKey (Name env) # tr
            @ snd (snd (iteration opts ns env (now0 + duration) duration st a))
            @ [OnPromotePullRequest FailedPromotionPullRequest]) \<and>
         (\<forall>ev\<in>set (snd (snd (iteration opts ns env (now0 + duration) duration st a))).
            \<forall>p ow r s. ev \<noteq> GitCall p (ListCommitStatus ow r s))"
proof -
  let ?e = "now0 + duration"
  let ?st0 = "st\<lparr>pullRequestInfo := Some (info\<lparr>PullRequest := Some pr\<rparr>)\<rparr>"
  let ?u = "unmerged_branch opts (GitProvider info) pr ?st0 a"
  let ?r = "rebase_and_deadline opts env ?e duration pr (fst (snd ?u)) a"
  have b: "branch opts ns env (GitProvider info) pr ?st0 a = ?u"
    using assms(7) by (simp add: branch_def)
  have s1: "fst ?u = Continue"
    using unmerged_branch_Continue [OF assms(8,9,10)] .
  have s2: "fst ?r = Done (Some (TimedOut (URL pr) duration))"
    using rebase_and_deadline_timeout [OF assms(11)] .
  have it: "iteration opts ns env ?e duration st a =
      (Done (Some (TimedOut (URL pr) duration)), fst (snd ?r),
       GitCall (GitProvider info) (UpdatePullRequestStatus (URL pr0))
       # snd (snd ?u) @ snd (snd ?r))"
    using s1 s2 by (simp add: iteration_refreshed [OF assms(4,5,6)] Let_def b)
  have info: "PullRequestInfo releaseInfo \<noteq> None"
    using waitForGitOpsPullRequest_Polling(1) [OF assms(3)] .
  have run: "waitForGitOpsPullRequest opts ns env releaseInfo ?e duration (pre @ a # rest) =
      (Returned (Some (TimedOut (URL pr) duration)), fst (snd ?r),
       tr @ snd (snd (iteration opts ns env ?e duration st a)))"
    by (simp add: waitForGitOpsPullRequest_append [OF assms(3)] it)
  have first: "WaitForPromotion opts ns env (Some releaseInfo) now0 (pre @ a # rest) =
           (Returned (Some (TimedOut (URL pr) duration)),
            CreatePromoteKey (Name env) # tr
            @ snd (snd (iteration opts ns env ?e duration st a))
            @ [OnPromotePullRequest FailedPromotionPullRequest])"
    using assms(1,2) info by (simp add: WaitForPromotion_def Let_def run)
  have second: "\<forall>p ow r s. ev \<noteq> GitCall p (ListCommitStatus ow r s)"
    if "ev \<in> set (snd (snd (iteration opts ns env ?e duration st a)))" for ev
  proof -
    from that it have "ev = GitCall (GitProvider info) (UpdatePullRequestStatus (URL pr0)) \<or>
        ev \<in> set (snd (snd ?u)) \<or> ev \<in> set (snd (snd ?r))" by auto
    then show ?thesis
      using unmerged_branch_events [of opts "GitProvider info" pr ?st0 a]
        rebase_and_deadline_events [of opts env ?e duration pr "fst (snd ?u)" a]
      by blast
  qed
  from first second show ?thesis by blast
qed

theorem deadline_check_times_out_witness:
  "fst (WaitForPromotion example_opts ''jx-staging'' example_env (Some example_release) 0
     ([quiet] @ late # [quiet])) = Returned (Some (TimedOut (URL example_pr) 3600))"
proof -
  have t: "TimeoutDuration example_opts = Some 3600" "PullRequestPollDuration example_opts = Some 20"
    by (simp_all add: example_opts_def)
  have p: "waitForGitOpsPullRequest example_opts ''jx-staging'' example_env example_release
      (0 + 3600) 3600 [quiet] =
      (Polling, initial_state (Some example_info),
       [GitCall ''github'' (UpdatePullRequestStatus (URL example_pr)),
        GitCall ''github'' (PullRequestLastCommitStatus (URL example_pr)),
        Log LogInProgress, Sleep 20])"
    by (simp add: example_one_quiet_iteration)
  have u: "updatePullRequestStatus late example_pr = (example_pr, None)"
    by (simp add: late_def quiet_def)
  have m: "Merged example_pr \<noteq> Some True" "\<not> Closed example_pr"
    by (simp_all add: example_pr_def)
  have l: "pullRequestLastCommitStatus late \<noteq> Inr ''error''"
    "pullRequestLastCommitStatus late \<noteq> Inr ''failure''"
    by (simp_all add: late_def quiet_def)
  have n: "(0::int) + 3600 < now late"
    by (simp add: late_def quiet_def)
  from deadline_check_times_out [OF t p example_tracked u m l n, of "[quiet]"]
  show ?thesis by simp
qed

subsection \<open>Statuses of the merge commit\<close>





















subsection \<open>The sweep over the automatic environments, and the target namespace\<close>







text \<open>
  C6. When the clients and the registry answer, every requested environment
  name that the registry does not know makes \<open>GetTargetNamespace\<close> fail, and
  the error lists every environment name the registry returned: it is the
  invalid-option error built from the option name, the requested name and all
  the names (or, for a registry without environments, the error that says so).
\<close>

theorem GetTargetNamespace_unknown_environment:
  assumes "kubeClient c = Inr currentNs" and "getDevNamespace c = Inr team"
      and "jxClient c = None" and "getEnvironments c = Inr (m, envNames)"
      and "env \<noteq> []" and "m env = None"
  shows "GetTargetNamespace c ns env =
           Inl (if envNames = [] then NoEnvironments team
                else InvalidOption optionEnvironment env envNames) \<and>
         set envNames
           \<subseteq> set (mentions (if envNames = [] then NoEnvironments team
                             else InvalidOption optionEnvironment env envNames))"
  using assms by (auto simp: GetTargetNamespace_def)

theorem GetTargetNamespace_unknown_environment_witness:
  "GetTargetNamespace example_cluster [] ''testing'' =
     Inl (InvalidOption optionEnvironment ''testing'' [''staging'', ''production''])"
proof -
  have h: "kubeClient example_cluster = Inr ''jx''" "getDevNamespace example_cluster = Inr ''jx''"
    "jxClient example_cluster = None"
    "getEnvironments example_cluster =
       Inr ([''staging'' \<mapsto> example_env, ''production'' \<mapsto> example_production],
            [''staging'', ''production''])"
    by (simp_all add: example_cluster_def)
  have e: "''testing'' \<noteq> []" by simp
  have n: "[''staging'' \<mapsto> example_env, ''production'' \<mapsto> example_production] ''testing'' = None"
    by simp
  from GetTargetNamespace_unknown_environment [OF h e n, of "[]"]
  show ?thesis by simp
qed

end
